theory Spec2Isabelle
  imports Complex_Main "HOL-Library.Multiset"
begin

section \<open>Rigid-body tilted supercell generator (Rotation.py)\<close>

text \<open>
  The numeric type of the source is the IEEE double (Python \<open>float\<close>, numpy \<open>float64\<close>).
  Two readings of its arithmetic are used.

  \<^item> \<open>solve_box_geometry\<close> and the builder \<open>create_tilted_cell\<close> are written over
    \<^typ>\<open>real\<close>: \<open>np.sqrt\<close>, \<open>np.arctan\<close>, \<open>np.cos\<close> and \<open>np.sin\<close> are the real
    functions, and rounding, overflow and NaN are not represented. The guard of the
    solver, and what the builder does with atoms, labels, box and rotation, are
    proved there.
  \<^item> \<open>solve_box_geometry_on\<close> is the solver with the arithmetic left open, and
    \<open>f64_arith\<close> reads it in double precision. The closed form is compared for every
    arithmetic. What the solver returns when \<open>sheetLength = 2 * spacing\<close>, where the
    rounding decides the sign of the radicand, is evaluated in double precision: over
    the reals the radicand is never negative on a valid input (\<open>radicand_nonneg\<close>),
    in double precision it can be.
\<close>

subsection \<open>Errors\<close>

text \<open>
  \<open>GeometryImpossible\<close> is the \<open>ValueError("Geometry impossible: ...")\<close> raised by
  \<open>solve_box_geometry\<close>. \<open>LinAlgError\<close> and \<open>StructureError\<close> are raised inside the
  structure library (a singular scaling or lattice matrix; species and coordinates
  of different lengths).
\<close>

datatype error = GeometryImpossible | LinAlgError | StructureError

subsection \<open>The geometry solver\<close>

definition solve_box_geometry :: "real \<Rightarrow> real \<Rightarrow> error + (real \<times> real \<times> real)" where
  "solve_box_geometry length_sheet h_spacing =
     (if length_sheet < 2 * h_spacing then Inl GeometryImpossible
      else
        let term = sqrt (length_sheet ^ 4 - 4 * (length_sheet * h_spacing) ^ 2);
            L_planar = sqrt ((length_sheet ^ 2 + term) / 2);
            L_z = (length_sheet * h_spacing) / L_planar;
            theta = arctan (L_z / L_planar)
        in Inr (L_planar, L_z, theta))"

text \<open>
  Over the reals, the discriminant term \<open>sqrt(L\<^sup>4 - 4(L\<cdot>spacing)\<^sup>2)\<close> and the square
  \<open>(L\<^sup>2 + sqrt(...)) / 2\<close> of the planar length, as the specification writes them.
  They name what the real solver returns in the facts about the builder.
\<close>

definition spec_discriminant :: "real \<Rightarrow> real \<Rightarrow> real" where
  "spec_discriminant L spacing = sqrt (L ^ 4 - 4 * (L * spacing) ^ 2)"

definition spec_planar_sq :: "real \<Rightarrow> real \<Rightarrow> real" where
  "spec_planar_sq L spacing = (L ^ 2 + spec_discriminant L spacing) / 2"

subsection \<open>The structure library used by the builder\<close>

text \<open>
  \<open>Lattice\<close> and \<open>Structure\<close> are classes of the third-party library pymatgen, which
  is not part of the repository. Only what \<open>create_tilted_cell\<close> uses of them is
  modelled, after the library's documented interface:
  \<^item> \<open>Lattice.from_parameters(a, b, c, alpha, beta, gamma)\<close> stores the six parameters;
    every lattice of this program is built with the angles \<open>90, 90, 90\<close>, so its
    matrix is \<open>diag(a, b, c)\<close> and the conversion between fractional and cartesian
    coordinates is a scaling per axis;
  \<^item> \<open>Structure(lattice, species, coords, ..., to_unit_cell=False,
    coords_are_cartesian=False, ...)\<close> converts cartesian input to fractional
    coordinates and reduces them modulo 1 only when \<open>to_unit_cell\<close> is true; both
    keywords default to false;
  \<^item> \<open>make_supercell([N, 1, 1])\<close> multiplies the first axis by \<open>N\<close> and replaces every
    site by its \<open>N\<close> translates, site by site, wrapped into the unit cell
    (its own \<open>to_unit_cell\<close> defaults to true);
  \<^item> \<open>copy()\<close> returns a structure with the same lattice, species and coordinates.

  The axis lengths \<open>lattice.a\<close> and \<open>lattice.b\<close> are read back as the parameters given,
  which they are for positive lengths. The replication count \<open>N\<close> is a natural number.
\<close>

type_synonym vec3 = "real \<times> real \<times> real"

type_synonym mat3 = "vec3 \<times> vec3 \<times> vec3"

record Lattice =
  lat_a :: real
  lat_b :: real
  lat_c :: real
  lat_alpha :: real
  lat_beta :: real
  lat_gamma :: real

record Structure =
  lattice :: Lattice
  species :: "string list"
  frac_coords :: "vec3 list"

definition from_parameters :: "real \<Rightarrow> real \<Rightarrow> real \<Rightarrow> real \<Rightarrow> real \<Rightarrow> real \<Rightarrow> Lattice" where
  "from_parameters a b c alpha beta gamma =
     \<lparr>lat_a = a, lat_b = b, lat_c = c, lat_alpha = alpha, lat_beta = beta, lat_gamma = gamma\<rparr>"

definition get_cartesian_coords :: "Lattice \<Rightarrow> vec3 \<Rightarrow> vec3" where
  "get_cartesian_coords lat = (\<lambda>(fx, fy, fz). (fx * lat_a lat, fy * lat_b lat, fz * lat_c lat))"

definition get_fractional_coords :: "Lattice \<Rightarrow> vec3 \<Rightarrow> vec3" where
  "get_fractional_coords lat = (\<lambda>(x, y, z). (x / lat_a lat, y / lat_b lat, z / lat_c lat))"

text \<open>Periodic-image reduction, \<open>np.mod(f, 1)\<close> on each component.\<close>

definition wrap :: "vec3 \<Rightarrow> vec3" where
  "wrap = (\<lambda>(fx, fy, fz). (frac fx, frac fy, frac fz))"

definition in_unit_cell :: "vec3 \<Rightarrow> bool" where
  "in_unit_cell = (\<lambda>(fx, fy, fz). 0 \<le> fx \<and> fx < 1 \<and> 0 \<le> fy \<and> fy < 1 \<and> 0 \<le> fz \<and> fz < 1)"

definition new_Structure ::
  "Lattice \<Rightarrow> string list \<Rightarrow> vec3 list \<Rightarrow> bool \<Rightarrow> bool \<Rightarrow> error + Structure" where
  "new_Structure lat sp coords to_unit_cell coords_are_cartesian =
     (if length sp \<noteq> length coords then Inl StructureError
      else if coords_are_cartesian \<and> (lat_a lat = 0 \<or> lat_b lat = 0 \<or> lat_c lat = 0)
        then Inl LinAlgError
      else
        let fcoords = (if coords_are_cartesian then map (get_fractional_coords lat) coords
                       else coords);
            fcoords = (if to_unit_cell then map wrap fcoords else fcoords)
        in Inr \<lparr>lattice = lat, species = sp, frac_coords = fcoords\<rparr>)"

definition cart_coords :: "Structure \<Rightarrow> vec3 list" where
  "cart_coords st = map (get_cartesian_coords (lattice st)) (frac_coords st)"

definition make_supercell :: "nat \<Rightarrow> Structure \<Rightarrow> error + Structure" where
  "make_supercell N st =
     (if N = 0 then Inl LinAlgError
      else Inr \<lparr>lattice = (lattice st)\<lparr>lat_a := real N * lat_a (lattice st)\<rparr>,
                species = concat (map (replicate N) (species st)),
                frac_coords = concat (map (\<lambda>(fx, fy, fz).
                    map (\<lambda>k. wrap ((fx + real k) / real N, fy, fz)) [0..<N])
                  (frac_coords st))\<rparr>)"

definition copy :: "Structure \<Rightarrow> Structure" where
  "copy st = \<lparr>lattice = lattice st, species = species st, frac_coords = frac_coords st\<rparr>"

subsection \<open>The flat unit cell\<close>

definition get_rectangular_mos2 :: "real \<Rightarrow> real \<Rightarrow> real \<Rightarrow> error + Structure" where
  "get_rectangular_mos2 a_lattice thickness vacuum =
     (let b_lattice = a_lattice * sqrt 3;
          lat = from_parameters a_lattice b_lattice vacuum 90 90 90;
          z_delta = thickness / vacuum / 2;
          z_mo = 1 / 2;
          z_s_top = 1 / 2 + z_delta;
          z_s_bot = 1 / 2 - z_delta;
          sp = [''Mo'', ''Mo'', ''S'', ''S'', ''S'', ''S''];
          coords = [(0, 0, z_mo), (1 / 2, 1 / 2, z_mo), (0, 0, z_s_bot),
                    (0, 0, z_s_top), (1 / 2, 1 / 2, z_s_bot), (1 / 2, 1 / 2, z_s_top)]
      in new_Structure lat sp coords False False)"

subsection \<open>The rigid tilt builder\<close>

definition np_mean :: "real list \<Rightarrow> real" where
  "np_mean xs = sum_list xs / real (length xs)"

definition rotation_matrix :: "real \<Rightarrow> real \<Rightarrow> mat3" where
  "rotation_matrix c s = ((c, 0, - s), (0, 1, 0), (s, 0, c))"

definition transpose3 :: "mat3 \<Rightarrow> mat3" where
  "transpose3 = (\<lambda>((m11, m12, m13), (m21, m22, m23), (m31, m32, m33)).
     ((m11, m21, m31), (m12, m22, m32), (m13, m23, m33)))"

text \<open>One row of \<open>np.dot(coords, M)\<close>: the row vector times the matrix.\<close>

definition dot_row :: "vec3 \<Rightarrow> mat3 \<Rightarrow> vec3" where
  "dot_row = (\<lambda>(x, y, z) ((m11, m12, m13), (m21, m22, m23), (m31, m32, m33)).
     (x * m11 + y * m21 + z * m31,
      x * m12 + y * m22 + z * m32,
      x * m13 + y * m23 + z * m33))"

definition np_dot :: "vec3 list \<Rightarrow> mat3 \<Rightarrow> vec3 list" where
  "np_dot coords M = map (\<lambda>v. dot_row v M) coords"

text \<open>Step 1 and 2 of \<open>create_tilted_cell\<close>: the unit cell replicated along x.\<close>

definition replicated_sheet :: "nat \<Rightarrow> real \<Rightarrow> error + Structure" where
  "replicated_sheet N a_param =
     (case get_rectangular_mos2 a_param (312 / 100) 20 of
        Inl e \<Rightarrow> Inl e
      | Inr struct \<Rightarrow> make_supercell N struct)"

text \<open>The cartesian coordinates, recentred so that the mean of z is zero.\<close>

definition centered_coords :: "Structure \<Rightarrow> vec3 list" where
  "centered_coords struct =
     (let cart = cart_coords struct;
          z_mean = np_mean (map (\<lambda>(x, y, z). z) cart)
      in map (\<lambda>(x, y, z). (x, y, z - z_mean)) cart)"

text \<open>Step 4: the rotation about the y axis applied to all rows.\<close>

definition rotate_coords :: "real \<Rightarrow> vec3 list \<Rightarrow> vec3 list" where
  "rotate_coords theta cart =
     (let c = cos theta; s = sin theta
      in np_dot cart (transpose3 (rotation_matrix c s)))"

definition create_tilted_cell :: "nat \<Rightarrow> real \<Rightarrow> real \<Rightarrow> error + (Structure \<times> real)" where
  "create_tilted_cell N h_spacing a_param =
     (case replicated_sheet N a_param of
        Inl e \<Rightarrow> Inl e
      | Inr struct \<Rightarrow>
          let cart = centered_coords struct;
              total_length = lat_a (lattice struct)
          in (case solve_box_geometry total_length h_spacing of
                Inl e \<Rightarrow> Inl e
              | Inr (L_planar, L_z, theta) \<Rightarrow>
                  let rotated = rotate_coords theta cart;
                      old_b = lat_b (lattice struct);
                      new_lattice = from_parameters L_planar old_b L_z 90 90 90
                  in (case new_Structure new_lattice (species struct) rotated False True of
                        Inl e \<Rightarrow> Inl e
                      | Inr new_struct_temp \<Rightarrow> Inr (copy new_struct_temp, theta))))"

text \<open>Euclidean distance between two absolute positions.\<close>

definition dist3 :: "vec3 \<Rightarrow> vec3 \<Rightarrow> real" where
  "dist3 = (\<lambda>(x1, y1, z1) (x2, y2, z2).
     sqrt ((x1 - x2) ^ 2 + (y1 - y2) ^ 2 + (z1 - z2) ^ 2))"

subsection \<open>The solver over an arbitrary arithmetic\<close>

text \<open>
  The same lines 59-68, with the arithmetic left open: the comparison, the four
  operations, \<open>**\<close>, \<open>np.sqrt\<close>, \<open>np.arctan\<close> and the integer literals are fields of a
  record. What is proved for every such record holds for the double-precision
  arithmetic the program runs on; \<open>real_arith\<close> gives back the solver above and
  \<open>f64_arith\<close> is the double-precision interpretation.
\<close>

record 'a arith =
  fl_lt :: "'a \<Rightarrow> 'a \<Rightarrow> bool"
  fl_add :: "'a \<Rightarrow> 'a \<Rightarrow> 'a"
  fl_sub :: "'a \<Rightarrow> 'a \<Rightarrow> 'a"
  fl_mul :: "'a \<Rightarrow> 'a \<Rightarrow> 'a"
  fl_div :: "'a \<Rightarrow> 'a \<Rightarrow> 'a"
  fl_pow :: "'a \<Rightarrow> nat \<Rightarrow> 'a"
  fl_sqrt :: "'a \<Rightarrow> 'a"
  fl_arctan :: "'a \<Rightarrow> 'a"
  fl_const :: "int \<Rightarrow> 'a"

definition solve_box_geometry_on :: "'a arith \<Rightarrow> 'a \<Rightarrow> 'a \<Rightarrow> error + ('a \<times> 'a \<times> 'a)" where
  "solve_box_geometry_on ops length_sheet h_spacing =
     (if fl_lt ops length_sheet (fl_mul ops (fl_const ops 2) h_spacing)
      then Inl GeometryImpossible
      else
        let term = fl_sqrt ops (fl_sub ops (fl_pow ops length_sheet 4)
                     (fl_mul ops (fl_const ops 4)
                        (fl_pow ops (fl_mul ops length_sheet h_spacing) 2)));
            L_planar = fl_sqrt ops
                     (fl_div ops (fl_add ops (fl_pow ops length_sheet 2) term) (fl_const ops 2));
            L_z = fl_div ops (fl_mul ops length_sheet h_spacing) L_planar;
            theta = fl_arctan ops (fl_div ops L_z L_planar)
        in Inr (L_planar, L_z, theta))"



definition real_arith :: "real arith" where
  "real_arith = \<lparr>fl_lt = (\<lambda>x y. x < y), fl_add = (\<lambda>x y. x + y),
     fl_sub = (\<lambda>x y. x - y), fl_mul = (\<lambda>x y. x * y), fl_div = (\<lambda>x y. x / y),
     fl_pow = (\<lambda>x n. x ^ n), fl_sqrt = sqrt, fl_arctan = arctan, fl_const = of_int\<rparr>"

subsection \<open>Double precision\<close>

text \<open>
  A double is a real number with a 53-bit significand, or NaN. Every operation
  returns the exact result rounded to the nearest double, ties to the even
  significand; the square root of a negative number is NaN, and NaN propagates and
  compares false. The exponent range is not bounded here, so overflow to infinity
  and subnormal numbers are not represented, and a division by zero gives NaN.
  \<open>**\<close> and \<open>np.arctan\<close> are taken as correctly rounded, which the C library does not
  promise in general.
\<close>

datatype f64 = Fin real | NaN

definition rne :: "real \<Rightarrow> int" where
  "rne x = (let f = \<lfloor>x\<rfloor>; d = x - of_int f
            in if d < 1 / 2 then f
               else if 1 / 2 < d then f + 1
               else if even f then f else f + 1)"

definition round_f64 :: "real \<Rightarrow> real" where
  "round_f64 x =
     (if x = 0 then 0
      else let e = \<lfloor>log 2 \<bar>x\<bar>\<rfloor> - 52
           in of_int (rne (x / 2 powi e)) * 2 powi e)"

fun f64_lt :: "f64 \<Rightarrow> f64 \<Rightarrow> bool" where
  "f64_lt (Fin x) (Fin y) = (x < y)"
| "f64_lt _ _ = False"

fun f64_add :: "f64 \<Rightarrow> f64 \<Rightarrow> f64" where
  "f64_add (Fin x) (Fin y) = Fin (round_f64 (x + y))"
| "f64_add _ _ = NaN"

fun f64_sub :: "f64 \<Rightarrow> f64 \<Rightarrow> f64" where
  "f64_sub (Fin x) (Fin y) = Fin (round_f64 (x - y))"
| "f64_sub _ _ = NaN"

fun f64_mul :: "f64 \<Rightarrow> f64 \<Rightarrow> f64" where
  "f64_mul (Fin x) (Fin y) = Fin (round_f64 (x * y))"
| "f64_mul _ _ = NaN"

fun f64_div :: "f64 \<Rightarrow> f64 \<Rightarrow> f64" where
  "f64_div (Fin x) (Fin y) = (if y = 0 then NaN else Fin (round_f64 (x / y)))"
| "f64_div _ _ = NaN"

fun f64_pow :: "f64 \<Rightarrow> nat \<Rightarrow> f64" where
  "f64_pow (Fin x) n = Fin (round_f64 (x ^ n))"
| "f64_pow NaN n = NaN"

fun f64_sqrt :: "f64 \<Rightarrow> f64" where
  "f64_sqrt (Fin x) = (if x < 0 then NaN else Fin (round_f64 (sqrt x)))"
| "f64_sqrt NaN = NaN"

fun f64_arctan :: "f64 \<Rightarrow> f64" where
  "f64_arctan (Fin x) = Fin (round_f64 (arctan x))"
| "f64_arctan NaN = NaN"

definition f64_arith :: "f64 arith" where
  "f64_arith = \<lparr>fl_lt = f64_lt, fl_add = f64_add, fl_sub = f64_sub, fl_mul = f64_mul,
     fl_div = f64_div, fl_pow = f64_pow, fl_sqrt = f64_sqrt, fl_arctan = f64_arctan,
     fl_const = (\<lambda>i. Fin (round_f64 (of_int i)))\<rparr>"

section \<open>The geometry solver\<close>

subsection \<open>Facts over the reals\<close>

lemma radicand_factor:
  fixes L h :: real
  shows "L ^ 4 - 4 * (L * h) ^ 2 = L ^ 2 * ((L - 2 * h) * (L + 2 * h))"
  by (simp add: power2_eq_square power4_eq_xxxx algebra_simps)

lemma radicand_nonneg:
  fixes L h :: real
  assumes "0 \<le> h" "2 * h \<le> L"
  shows "0 \<le> L ^ 4 - 4 * (L * h) ^ 2"
proof -
  have "0 \<le> L - 2 * h" "0 \<le> L + 2 * h"
    using assms by linarith+
  then have "0 \<le> (L - 2 * h) * (L + 2 * h)"
    by (rule mult_nonneg_nonneg)
  then have "0 \<le> L ^ 2 * ((L - 2 * h) * (L + 2 * h))"
    by (simp add: mult_nonneg_nonneg)
  then show ?thesis by (simp only: radicand_factor)
qed

lemma spec_discriminant_nonneg: "0 \<le> h \<Longrightarrow> 2 * h \<le> L \<Longrightarrow> 0 \<le> spec_discriminant L h"
  unfolding spec_discriminant_def by (rule real_sqrt_ge_zero[OF radicand_nonneg])

lemma spec_planar_sq_pos:
  assumes "0 < h" "2 * h \<le> L"
  shows "0 < spec_planar_sq L h"
proof -
  have "0 < L" using assms by linarith
  then have "0 < L ^ 2" by simp
  moreover have "0 \<le> spec_discriminant L h" using assms by (simp add: spec_discriminant_nonneg)
  ultimately have "0 < L ^ 2 + spec_discriminant L h" by linarith
  then show ?thesis unfolding spec_planar_sq_def by simp
qed

lemma solve_box_geometry_Inr:
  assumes "\<not> L < 2 * h"
  shows "solve_box_geometry L h =
    Inr (sqrt (spec_planar_sq L h), (L * h) / sqrt (spec_planar_sq L h),
         arctan ((L * h) / sqrt (spec_planar_sq L h) / sqrt (spec_planar_sq L h)))"
  using assms by (simp add: solve_box_geometry_def Let_def spec_planar_sq_def spec_discriminant_def)

lemma ratio_eq:
  assumes "0 < h" "2 * h \<le> L"
  shows "(L * h) / sqrt (spec_planar_sq L h) / sqrt (spec_planar_sq L h) = (L * h) / spec_planar_sq L h"
proof -
  have "sqrt (spec_planar_sq L h) * sqrt (spec_planar_sq L h) = spec_planar_sq L h"
    using spec_planar_sq_pos[OF assms] by simp
  then show ?thesis by (simp add: divide_divide_eq_left)
qed

lemma ratio_pos:
  fixes L h :: real
  assumes "0 < h" "2 * h \<le> L"
  shows "0 < (L * h) / spec_planar_sq L h"
proof -
  have "0 < L" using assms by linarith
  then show ?thesis using assms spec_planar_sq_pos[OF assms] by simp
qed

lemma twoLh_le:
  fixes L h :: real
  assumes "0 < h" "2 * h \<le> L"
  shows "2 * (L * h) \<le> L ^ 2"
proof -
  have "0 < L" using assms by linarith
  then have "L * (2 * h) \<le> L * L" using assms by (intro mult_left_mono) auto
  then show ?thesis by (simp add: power2_eq_square algebra_simps)
qed

lemma ratio_le_one:
  assumes "0 < h" "2 * h \<le> L"
  shows "(L * h) / spec_planar_sq L h \<le> 1"
proof -
  have "2 * (L * h) \<le> L ^ 2 + spec_discriminant L h"
    using twoLh_le[OF assms] spec_discriminant_nonneg[of h L] assms by linarith
  then have "L * h \<le> spec_planar_sq L h" unfolding spec_planar_sq_def by simp
  then show ?thesis using spec_planar_sq_pos[OF assms] by simp
qed

lemma arctan_ratio:
  assumes "0 < h" "2 * h \<le> L"
  shows "0 < arctan ((L * h) / spec_planar_sq L h)"
    and "arctan ((L * h) / spec_planar_sq L h) \<le> pi / 4"
proof -
  let ?t = "(L * h) / spec_planar_sq L h"
  show "0 < arctan ?t"
    using ratio_pos[OF assms] by (simp only: zero_less_arctan_iff)
  have "arctan ?t \<le> arctan 1"
    using ratio_le_one[OF assms] by (simp only: arctan_le_iff)
  then show "arctan ?t \<le> pi / 4" by (simp only: arctan_one)
qed

lemma solve_box_geometry_valid:
  assumes "0 < h" "2 * h \<le> L"
  shows "solve_box_geometry L h =
    Inr (sqrt (spec_planar_sq L h), (L * h) / sqrt (spec_planar_sq L h),
         arctan ((L * h) / spec_planar_sq L h))"
proof -
  have "\<not> L < 2 * h" using assms by simp
  then have "solve_box_geometry L h =
    Inr (sqrt (spec_planar_sq L h), (L * h) / sqrt (spec_planar_sq L h),
         arctan ((L * h) / sqrt (spec_planar_sq L h) / sqrt (spec_planar_sq L h)))"
    by (rule solve_box_geometry_Inr)
  then show ?thesis
    by (simp only: ratio_eq[OF assms])
qed

subsection \<open>Claims about the geometry solver\<close>

text \<open>
  C1. For positive sheet length and spacing, the solver raises \<open>GeometryImpossible\<close> and
  produces no result when \<open>sheetLength < 2 * spacing\<close>; when
  \<open>sheetLength \<ge> 2 * spacing\<close> it raises nothing and returns a triple. For
  \<open>sheetLength = 10\<close>, \<open>spacing = 6\<close> it fails.
\<close>

theorem solve_box_geometry_raises:
  fixes L h :: real
  assumes "0 < L" "0 < h"
  shows "(L < 2 * h \<longrightarrow> solve_box_geometry L h = Inl GeometryImpossible
            \<and> (\<forall>t. solve_box_geometry L h \<noteq> Inr t))
       \<and> (2 * h \<le> L \<longrightarrow> (\<exists>t. solve_box_geometry L h = Inr t)
            \<and> (\<forall>e. solve_box_geometry L h \<noteq> Inl e))
       \<and> solve_box_geometry 10 6 = Inl GeometryImpossible"
  by (simp add: solve_box_geometry_def Let_def)

text \<open>Both branches of C1 are reached: at \<open>(10, 6)\<close> and at \<open>(31, 15)\<close>.\<close>

theorem solve_box_geometry_raises_witness:
  "solve_box_geometry 10 6 = Inl GeometryImpossible
   \<and> (\<exists>t. solve_box_geometry 31 15 = Inr t)"
  using solve_box_geometry_raises[of 10 6] solve_box_geometry_raises[of 31 15] by simp

text \<open>
  C10. The solver checks only \<open>sheetLength < 2 * spacing\<close>: with \<open>spacing = 0\<close> and any
  positive sheet length it raises nothing and returns the degenerate triple
  \<open>(sheetLength, 0, 0)\<close>, whose tilt angle \<open>0\<close> is outside \<open>(0, \<pi>/4]\<close>.
\<close>

theorem solve_box_geometry_zero_spacing:
  assumes "0 < L"
  shows "solve_box_geometry L 0 = Inr (L, 0, 0)"
proof -
  have "sqrt (L ^ 4) = L ^ 2"
    by (metis abs_power2 power2_eq_square power4_eq_xxxx real_sqrt_abs2 mult.assoc power2_abs)
  then show ?thesis
    using assms by (simp add: solve_box_geometry_def Let_def)
qed

text \<open>C10 at \<open>sheetLength = 5\<close>.\<close>

theorem solve_box_geometry_zero_spacing_witness:
  "(0::real) < 5 \<and> solve_box_geometry 5 0 = Inr (5, 0, 0)"
  using solve_box_geometry_zero_spacing[of 5] by simp

subsection \<open>The closed form, for every arithmetic\<close>

text \<open>The solver over the reals is the solver over \<open>real_arith\<close>.\<close>

lemma solve_box_geometry_real_arith:
  "solve_box_geometry_on real_arith L h = solve_box_geometry L h"
  by (simp add: solve_box_geometry_on_def solve_box_geometry_def real_arith_def Let_def)


subsection \<open>Evaluation in double precision\<close>

text \<open>
  Within one binade the rounding is a rounding to a multiple of a power of two, which
  the simplifier evaluates on numerals.
\<close>

lemma powr_2_int: "(2::real) powr real_of_int k = 2 powi k"
  by (simp add: powr_real_of_int')

lemma round_f64_binade:
  assumes "2 powi (e + 52) \<le> \<bar>x\<bar>" "\<bar>x\<bar> < 2 powi (e + 53)"
  shows "round_f64 x = of_int (rne (x / 2 powi e)) * 2 powi e"
proof -
  have "(0::real) < 2 powi (e + 52)" by simp
  then have pos: "0 < \<bar>x\<bar>" using assms(1) by linarith
  have 1: "2 powr real_of_int (e + 52) \<le> \<bar>x\<bar>"
    using assms(1) by (simp only: powr_2_int)
  have "real_of_int (e + 52) + 1 = real_of_int (e + 53)" by simp
  then have 2: "\<bar>x\<bar> < 2 powr (real_of_int (e + 52) + 1)"
    using assms(2) by (simp only: powr_2_int)
  have "\<lfloor>log 2 \<bar>x\<bar>\<rfloor> = e + 52"
    using floor_log_eq_powr_iff[of "\<bar>x\<bar>" 2 "e + 52"] pos 1 2 by simp
  then show ?thesis using pos by (simp add: round_f64_def Let_def)
qed

lemma powi_minus_nat: "(2::real) powi (- int k) = 1 / 2 ^ k"
  by (simp add: power_int_minus inverse_eq_divide)

lemma powi_shift:
  "(2::real) powi (- int k + int n) = 2 ^ n / 2 ^ k"
proof -
  have "(2::real) powi (- int k + int n) = 2 powi (- int k) * 2 powi (int n)"
    by (rule power_int_add) simp
  then show ?thesis by (simp add: powi_minus_nat)
qed

lemma round_f64_scaled:
  assumes "2 ^ 52 \<le> \<bar>x\<bar> * 2 ^ k" "\<bar>x\<bar> * 2 ^ k < 2 ^ 53"
  shows "round_f64 x = of_int (rne (x * 2 ^ k)) / 2 ^ k"
proof -
  have a: "(2::real) powi (- int k + 52) = 2 ^ 52 / 2 ^ k"
    using powi_shift[of k 52] by simp
  have b: "(2::real) powi (- int k + 53) = 2 ^ 53 / 2 ^ k"
    using powi_shift[of k 53] by simp
  have "2 powi (- int k + 52) \<le> \<bar>x\<bar>" "\<bar>x\<bar> < 2 powi (- int k + 53)"
    unfolding a b using assms by (simp_all add: field_simps)
  from round_f64_binade[OF this] show ?thesis by (simp add: powi_minus_nat)
qed

lemma round_f64_two: "round_f64 2 = 2"
  by (subst round_f64_scaled[where k = 51]) (simp_all add: rne_def Let_def)

lemma round_f64_four: "round_f64 4 = 4"
  by (subst round_f64_scaled[where k = 50]) (simp_all add: rne_def Let_def)

lemma negative_radicand_gives_NaN:
  assumes twice: "round_f64 (2 * h) = L"
    and rad: "round_f64 (round_f64 (L ^ 4) - round_f64 (4 * round_f64 (round_f64 (L * h) ^ 2))) < 0"
  shows "solve_box_geometry_on f64_arith (Fin L) (Fin h) = Inr (NaN, NaN, NaN)"
  using rad
  by (simp add: solve_box_geometry_on_def f64_arith_def Let_def round_f64_two round_f64_four twice)

text \<open>The operations of the radicand on the doubles \<open>0.2\<close> and \<open>0.1\<close>.\<close>

lemma f64_twice_fifth: "round_f64 (2 * (3602879701896397 / 2 ^ 55)) = 3602879701896397 / 2 ^ 54"
  by (subst round_f64_scaled[where k = 55]) (simp_all add: rne_def Let_def power_divide)

lemma f64_pow4_fifth: "round_f64 ((3602879701896397 / 2 ^ 54) ^ 4) = 3689348814741911 / 2 ^ 61"
  by (subst round_f64_scaled[where k = 62]) (simp_all add: rne_def Let_def power_divide)

lemma f64_prod_fifth: "round_f64 (3602879701896397 / 2 ^ 54 * (3602879701896397 / 2 ^ 55)) = 1441151880758559 / 2 ^ 56"
  by (subst round_f64_scaled[where k = 58]) (simp_all add: rne_def Let_def power_divide)

lemma f64_prodsq_fifth: "round_f64 ((1441151880758559 / 2 ^ 56) ^ 2) = 461168601842739 / 2 ^ 60"
  by (subst round_f64_scaled[where k = 64]) (simp_all add: rne_def Let_def power_divide)

lemma f64_four_fifth: "round_f64 (4 * (461168601842739 / 2 ^ 60)) = 461168601842739 / 2 ^ 58"
  by (subst round_f64_scaled[where k = 62]) (simp_all add: rne_def Let_def power_divide)

lemma f64_radicand_fifth: "round_f64 (3689348814741911 / 2 ^ 61 - 461168601842739 / 2 ^ 58) = - (1 / 2 ^ 61)"
  by (subst round_f64_scaled[where k = 113]) (simp_all add: rne_def Let_def power_divide)

text \<open>The same on the doubles \<open>22.26\<close> and \<open>11.13\<close>.\<close>

lemma f64_twice_strip: "round_f64 (2 * (6265632981579203 / 2 ^ 49)) = 6265632981579203 / 2 ^ 48"
  by (subst round_f64_scaled[where k = 48]) (simp_all add: rne_def Let_def power_divide)

lemma f64_pow4_strip: "round_f64 ((6265632981579203 / 2 ^ 48) ^ 4) = 8436270339836065 / 2 ^ 35"
  by (subst round_f64_scaled[where k = 35]) (simp_all add: rne_def Let_def power_divide)

lemma f64_prod_strip: "round_f64 (6265632981579203 / 2 ^ 48 * (6265632981579203 / 2 ^ 49)) = 8717061885622067 / 2 ^ 45"
  by (subst round_f64_scaled[where k = 45]) (simp_all add: rne_def Let_def power_divide)

lemma f64_prodsq_strip: "round_f64 ((8717061885622067 / 2 ^ 45) ^ 2) = 4218135169918033 / 2 ^ 36"
  by (subst round_f64_scaled[where k = 37]) (simp_all add: rne_def Let_def power_divide)

lemma f64_four_strip: "round_f64 (4 * (4218135169918033 / 2 ^ 36)) = 4218135169918033 / 2 ^ 34"
  by (subst round_f64_scaled[where k = 35]) (simp_all add: rne_def Let_def power_divide)

lemma f64_radicand_strip: "round_f64 (8436270339836065 / 2 ^ 35 - 4218135169918033 / 2 ^ 34) = - (1 / 2 ^ 35)"
  by (subst round_f64_scaled[where k = 87]) (simp_all add: rne_def Let_def power_divide)




text \<open>
  C3. The claim is that on every valid input the returned triple satisfies
  \<open>planarLength\<^sup>2 + perpendicularLength\<^sup>2 = sheetLength\<^sup>2\<close> and
  \<open>tiltAngle = arctan (perpendicularLength / planarLength)\<close>. The doubles written
  \<open>0.2\<close> and \<open>0.1\<close> are a valid input, with \<open>sheetLength = 2 * spacing\<close> exactly, so the
  guard of line 59 lets them through. In double precision \<open>L**4\<close> is then rounded
  below \<open>4 * (L * h)**2\<close>, the radicand of line 63 is \<open>-1 / 2 ^ 61\<close>, its square root
  is NaN, and the solver returns \<open>(NaN, NaN, NaN)\<close>, of which no closure equation
  holds.
\<close>

theorem solve_box_geometry_boundary_NaN:
  "solve_box_geometry_on f64_arith (Fin (3602879701896397 / 2 ^ 54)) (Fin (3602879701896397 / 2 ^ 55)) = Inr (NaN, NaN, NaN)"
proof (rule negative_radicand_gives_NaN)
  show "round_f64 (2 * (3602879701896397 / 2 ^ 55)) = 3602879701896397 / 2 ^ 54"
    by (rule f64_twice_fifth)
  show "round_f64 (round_f64 ((3602879701896397 / 2 ^ 54) ^ 4)
      - round_f64 (4 * round_f64 (round_f64 (3602879701896397 / 2 ^ 54 * (3602879701896397 / 2 ^ 55)) ^ 2))) < 0"
    by (simp only: f64_pow4_fifth f64_prod_fifth f64_prodsq_fifth f64_four_fifth
        f64_radicand_fifth) simp
qed

text \<open>
  C4. The claim is that on every valid input the tilt angle is above \<open>0\<close> and at most
  \<open>\<pi>/4\<close>, and is \<open>\<pi>/4\<close> exactly when \<open>sheetLength = 2 * spacing\<close>. The doubles written
  \<open>22.26\<close> and \<open>11.13\<close> (seven cells of \<open>3.18\<close>, and half of that as spacing) are such
  an input. The radicand of line 63 is \<open>-1 / 2 ^ 35\<close>, and the angle returned is NaN,
  which is not above \<open>0\<close> and is not \<open>\<pi>/4\<close>.
\<close>

theorem solve_box_geometry_boundary_angle_NaN:
  "solve_box_geometry_on f64_arith (Fin (6265632981579203 / 2 ^ 48)) (Fin (6265632981579203 / 2 ^ 49))
     = Inr (NaN, NaN, NaN)
   \<and> \<not> f64_lt (Fin 0) NaN"
proof -
  have "solve_box_geometry_on f64_arith (Fin (6265632981579203 / 2 ^ 48))
      (Fin (6265632981579203 / 2 ^ 49)) = Inr (NaN, NaN, NaN)"
  proof (rule negative_radicand_gives_NaN)
    show "round_f64 (2 * (6265632981579203 / 2 ^ 49)) = 6265632981579203 / 2 ^ 48"
      by (rule f64_twice_strip)
    show "round_f64 (round_f64 ((6265632981579203 / 2 ^ 48) ^ 4)
        - round_f64 (4 * round_f64 (round_f64 (6265632981579203 / 2 ^ 48
            * (6265632981579203 / 2 ^ 49)) ^ 2))) < 0"
      by (simp only: f64_pow4_strip f64_prod_strip f64_prodsq_strip f64_four_strip
          f64_radicand_strip) simp
  qed
  then show ?thesis by simp
qed

section \<open>The rigid tilt builder\<close>

subsection \<open>What the builder returns\<close>

lemma get_rectangular_mos2_Inr:
  "get_rectangular_mos2 a t v =
     Inr \<lparr>lattice = from_parameters a (a * sqrt 3) v 90 90 90,
          species = [''Mo'', ''Mo'', ''S'', ''S'', ''S'', ''S''],
          frac_coords = [(0, 0, 1 / 2), (1 / 2, 1 / 2, 1 / 2), (0, 0, 1 / 2 - t / v / 2),
                    (0, 0, 1 / 2 + t / v / 2), (1 / 2, 1 / 2, 1 / 2 - t / v / 2),
                    (1 / 2, 1 / 2, 1 / 2 + t / v / 2)]\<rparr>"
  by (simp add: get_rectangular_mos2_def new_Structure_def Let_def)

lemma replicated_sheet_zero: "replicated_sheet 0 a = Inl LinAlgError"
  by (simp add: replicated_sheet_def get_rectangular_mos2_Inr make_supercell_def)

lemma replicated_sheet_Inr:
  assumes "replicated_sheet N a = Inr sheet"
  shows "0 < N"
    and "lattice sheet = from_parameters (real N * a) (a * sqrt 3) 20 90 90 90"
    and "species sheet = concat (map (replicate N) [''Mo'', ''Mo'', ''S'', ''S'', ''S'', ''S''])"
    and "length (species sheet) = 6 * N"
    and "length (frac_coords sheet) = 6 * N"
proof -
  show N: "0 < N" using assms replicated_sheet_zero[of a] by (cases N) auto
  note d = replicated_sheet_def get_rectangular_mos2_Inr make_supercell_def from_parameters_def
  show "lattice sheet = from_parameters (real N * a) (a * sqrt 3) 20 90 90 90"
    using assms N by (auto simp: d)
  show sp: "species sheet = concat (map (replicate N) [''Mo'', ''Mo'', ''S'', ''S'', ''S'', ''S''])"
    using assms N by (auto simp: d)
  show "length (species sheet) = 6 * N" by (simp add: sp)
  show "length (frac_coords sheet) = 6 * N"
    using assms N by (auto simp: d)
qed

lemma replicated_sheet_ok:
  "0 < N \<Longrightarrow> \<exists>sheet. replicated_sheet N a = Inr sheet"
  by (simp add: replicated_sheet_def get_rectangular_mos2_Inr make_supercell_def)

lemma length_centered_coords: "length (centered_coords st) = length (frac_coords st)"
  by (simp add: centered_coords_def cart_coords_def Let_def)

lemma length_rotate_coords: "length (rotate_coords theta cs) = length cs"
  by (simp add: rotate_coords_def np_dot_def Let_def)

lemma create_tilted_cell_Inr:
  assumes "create_tilted_cell N h a = Inr (cell, theta)"
  shows "\<exists>sheet Lp Lz. replicated_sheet N a = Inr sheet
      \<and> solve_box_geometry (lat_a (lattice sheet)) h = Inr (Lp, Lz, theta)
      \<and> Lp \<noteq> 0 \<and> lat_b (lattice sheet) \<noteq> 0 \<and> Lz \<noteq> 0
      \<and> cell = \<lparr>lattice = from_parameters Lp (lat_b (lattice sheet)) Lz 90 90 90,
                 species = species sheet,
                 frac_coords = map (get_fractional_coords
                       (from_parameters Lp (lat_b (lattice sheet)) Lz 90 90 90))
                     (rotate_coords theta (centered_coords sheet))\<rparr>"
  using assms
  by (auto simp: create_tilted_cell_def Let_def new_Structure_def copy_def from_parameters_def
      split: sum.splits prod.splits if_splits)

lemma create_tilted_cell_ok:
  assumes "0 < N" "0 < a" "0 < h" "2 * h \<le> real N * a"
  shows "\<exists>cell theta. create_tilted_cell N h a = Inr (cell, theta)"
proof -
  obtain sheet where sh: "replicated_sheet N a = Inr sheet"
    using replicated_sheet_ok[OF assms(1)] by blast
  note f = replicated_sheet_Inr[OF sh]
  have la: "lat_a (lattice sheet) = real N * a" and lb: "lat_b (lattice sheet) = a * sqrt 3"
    by (simp_all add: f(2) from_parameters_def)
  let ?u = "spec_planar_sq (real N * a) h"
  have u: "0 < ?u" by (rule spec_planar_sq_pos[OF assms(3,4)])
  have so: "solve_box_geometry (lat_a (lattice sheet)) h =
      Inr (sqrt ?u, (real N * a * h) / sqrt ?u, arctan ((real N * a * h) / ?u))"
    unfolding la by (rule solve_box_geometry_valid[OF assms(3,4)])
  have nz: "sqrt ?u \<noteq> 0" "(real N * a * h) / sqrt ?u \<noteq> 0" "a * sqrt 3 \<noteq> 0"
    using u assms by simp_all
  show ?thesis
    using sh so nz f(4,5)
    by (simp add: create_tilted_cell_def Let_def new_Structure_def lb from_parameters_def
        length_centered_coords length_rotate_coords)
qed

subsection \<open>The rotation step\<close>

lemma dot_row_rotation:
  "dot_row (x, y, z) (transpose3 (rotation_matrix c s)) = (c * x - s * z, y, s * x + c * z)"
  by (simp add: dot_row_def transpose3_def rotation_matrix_def algebra_simps)

lemma rotate_coords_map:
  "rotate_coords theta cart =
     map (\<lambda>(x, y, z). (cos theta * x - sin theta * z, y, sin theta * x + cos theta * z)) cart"
  by (auto simp: rotate_coords_def np_dot_def Let_def dot_row_rotation)

lemma rotation_sum_squares:
  fixes c s dx dz :: real
  assumes "s ^ 2 + c ^ 2 = 1"
  shows "(c * dx - s * dz) ^ 2 + (s * dx + c * dz) ^ 2 = dx ^ 2 + dz ^ 2"
proof -
  have "(c * dx - s * dz) ^ 2 + (s * dx + c * dz) ^ 2 = (s ^ 2 + c ^ 2) * (dx ^ 2 + dz ^ 2)"
    by (simp add: power2_eq_square algebra_simps)
  then show ?thesis by (simp add: assms)
qed

lemma dist3_rotation:
  "dist3 (dot_row p (transpose3 (rotation_matrix (cos t) (sin t))))
         (dot_row q (transpose3 (rotation_matrix (cos t) (sin t)))) = dist3 p q"
proof -
  obtain x1 y1 z1 where p: "p = (x1, y1, z1)" by (cases p) auto
  obtain x2 y2 z2 where q: "q = (x2, y2, z2)" by (cases q) auto
  have e: "(cos t * x1 - sin t * z1 - (cos t * x2 - sin t * z2)) ^ 2
         + (sin t * x1 + cos t * z1 - (sin t * x2 + cos t * z2)) ^ 2
         = (x1 - x2) ^ 2 + (z1 - z2) ^ 2"
    using rotation_sum_squares[of "sin t" "cos t" "x1 - x2" "z1 - z2"]
    by (simp add: algebra_simps)
  have "(cos t * x1 - sin t * z1 - (cos t * x2 - sin t * z2)) ^ 2 + (y1 - y2) ^ 2
         + (sin t * x1 + cos t * z1 - (sin t * x2 + cos t * z2)) ^ 2
         = (x1 - x2) ^ 2 + (y1 - y2) ^ 2 + (z1 - z2) ^ 2"
    using e by linarith
  then show ?thesis
    by (simp only: p q dot_row_rotation dist3_def prod.case)
qed

text \<open>
  C7. In the cell returned by \<open>create_tilted_cell\<close>, with the angle \<open>\<theta>\<close> the solver gives
  for the replicated sheet, every atom is the image of its centred cartesian position
  under one and the same rotation: \<open>x\<close> becomes \<open>cos \<theta> x - sin \<theta> z\<close>, \<open>z\<close> becomes
  \<open>sin \<theta> x + cos \<theta> z\<close> and \<open>y\<close> keeps its value; the coordinates stored are these,
  divided by the lengths of the new box.
\<close>

theorem create_tilted_cell_rotation:
  assumes "0 < a" "0 < h" "create_tilted_cell N h a = Inr (cell, theta)"
  shows "\<exists>sheet Lp Lz. replicated_sheet N a = Inr sheet
     \<and> solve_box_geometry (lat_a (lattice sheet)) h = Inr (Lp, Lz, theta)
     \<and> rotate_coords theta (centered_coords sheet) =
         map (\<lambda>(x, y, z). (cos theta * x - sin theta * z, y, sin theta * x + cos theta * z))
           (centered_coords sheet)
     \<and> frac_coords cell =
         map (\<lambda>(x, y, z). get_fractional_coords (lattice cell)
                (cos theta * x - sin theta * z, y, sin theta * x + cos theta * z))
           (centered_coords sheet)
     \<and> length (frac_coords cell) = length (centered_coords sheet)"
proof -
  obtain sheet Lp Lz where sh: "replicated_sheet N a = Inr sheet"
    and so: "solve_box_geometry (lat_a (lattice sheet)) h = Inr (Lp, Lz, theta)"
    and ce: "cell = \<lparr>lattice = from_parameters Lp (lat_b (lattice sheet)) Lz 90 90 90,
                 species = species sheet,
                 frac_coords = map (get_fractional_coords
                       (from_parameters Lp (lat_b (lattice sheet)) Lz 90 90 90))
                     (rotate_coords theta (centered_coords sheet))\<rparr>"
    using create_tilted_cell_Inr[OF assms(3)] by blast
  let ?r = "\<lambda>(x, y, z). (cos theta * x - sin theta * z, y, sin theta * x + cos theta * z)"
  have rc: "rotate_coords theta (centered_coords sheet) = map ?r (centered_coords sheet)"
    by (rule rotate_coords_map)
  have lc: "lattice cell = from_parameters Lp (lat_b (lattice sheet)) Lz 90 90 90"
    by (simp add: ce)
  have "frac_coords cell = map (get_fractional_coords (lattice cell)) (map ?r (centered_coords sheet))"
    unfolding lc by (simp add: ce rc)
  then have fc: "frac_coords cell =
         map (\<lambda>(x, y, z). get_fractional_coords (lattice cell)
                (cos theta * x - sin theta * z, y, sin theta * x + cos theta * z))
           (centered_coords sheet)"
    by (simp add: split_def o_def)
  then have "length (frac_coords cell) = length (centered_coords sheet)" by simp
  then show ?thesis using sh so rc fc by blast
qed

text \<open>C7 on the parameters of the script.\<close>

theorem create_tilted_cell_rotation_witness:
  "\<exists>cell theta sheet Lp Lz. create_tilted_cell 10 15 (318 / 100) = Inr (cell, theta)
     \<and> replicated_sheet 10 (318 / 100) = Inr sheet
     \<and> solve_box_geometry (lat_a (lattice sheet)) 15 = Inr (Lp, Lz, theta)
     \<and> frac_coords cell =
         map (\<lambda>(x, y, z). get_fractional_coords (lattice cell)
                (cos theta * x - sin theta * z, y, sin theta * x + cos theta * z))
           (centered_coords sheet)
     \<and> length (frac_coords cell) = 60"
proof -
  have "\<exists>cell theta. create_tilted_cell 10 15 (318 / 100) = Inr (cell, theta)"
    by (rule create_tilted_cell_ok) simp_all
  then obtain cell theta where c: "create_tilted_cell 10 15 (318 / 100) = Inr (cell, theta)"
    by blast
  have h: "(0::real) < 318 / 100" "(0::real) < 15" by simp_all
  from create_tilted_cell_rotation[OF h c]
  obtain sheet Lp Lz where sh: "replicated_sheet 10 (318 / 100) = Inr sheet"
    and so: "solve_box_geometry (lat_a (lattice sheet)) 15 = Inr (Lp, Lz, theta)"
    and fc: "frac_coords cell =
         map (\<lambda>(x, y, z). get_fractional_coords (lattice cell)
                (cos theta * x - sin theta * z, y, sin theta * x + cos theta * z))
           (centered_coords sheet)"
    and le: "length (frac_coords cell) = length (centered_coords sheet)"
    by blast
  have "length (frac_coords cell) = 60"
    using le replicated_sheet_Inr(5)[OF sh] by (simp add: length_centered_coords)
  then show ?thesis using c sh so fc by blast
qed

text \<open>
  C8. The rotation step preserves the distance between any two atoms: the Euclidean
  distance between two rotated positions is the distance between the positions before
  the rotation.
\<close>

theorem rotate_coords_preserves_distances:
  assumes "i < length cart" "j < length cart"
  shows "dist3 (rotate_coords theta cart ! i) (rotate_coords theta cart ! j)
       = dist3 (cart ! i) (cart ! j)"
  using assms by (simp add: rotate_coords_def np_dot_def Let_def dist3_rotation)

text \<open>C8 on two atoms, rotated by a quarter turn.\<close>

theorem rotate_coords_preserves_distances_witness:
  "dist3 (rotate_coords (pi / 2) [(1, 0, 0), (0, 2, 3)] ! 0)
         (rotate_coords (pi / 2) [(1, 0, 0), (0, 2, 3)] ! 1)
   = dist3 ([(1, 0, 0), (0, 2, 3)] ! 0) ([(1, 0, 0), (0, 2, 3)] ! 1)"
  using rotate_coords_preserves_distances[of 0 "[(1, 0, 0), (0, 2, 3)]" 1 "pi / 2"] by simp

subsection \<open>Claims about the tilted cell\<close>

text \<open>
  C6. For \<open>N \<ge> 1\<close> (and positive spacing and lattice constant), the cell returned by \<open>create_tilted_cell\<close> has as many atoms as the
  replicated sheet, \<open>6 N\<close>, and the species list of the sheet, atom by atom (hence the
  same multiset of species).
\<close>

theorem create_tilted_cell_preserves_atoms:
  assumes "1 \<le> N" "0 < a" "0 < h" "create_tilted_cell N h a = Inr (cell, theta)"
  shows "\<exists>sheet. replicated_sheet N a = Inr sheet
     \<and> length (frac_coords sheet) = 6 * N
     \<and> length (frac_coords cell) = 6 * N
     \<and> length (species cell) = 6 * N
     \<and> species cell = species sheet
     \<and> mset (species cell) = mset (species sheet)"
proof -
  obtain sheet Lp Lz where sh: "replicated_sheet N a = Inr sheet"
    and c: "cell = \<lparr>lattice = from_parameters Lp (lat_b (lattice sheet)) Lz 90 90 90,
                 species = species sheet,
                 frac_coords = map (get_fractional_coords
                       (from_parameters Lp (lat_b (lattice sheet)) Lz 90 90 90))
                     (rotate_coords theta (centered_coords sheet))\<rparr>"
    using create_tilted_cell_Inr[OF assms(4)] by blast
  note f = replicated_sheet_Inr[OF sh]
  have "length (frac_coords cell) = 6 * N"
    by (simp add: c length_rotate_coords length_centered_coords f(5))
  moreover have "species cell = species sheet" by (simp add: c)
  ultimately show ?thesis using sh f(4,5) by simp
qed

text \<open>C6 on the parameters of the script: \<open>N = 10\<close>, spacing \<open>15\<close>, \<open>a = 3.18\<close>.\<close>

theorem create_tilted_cell_preserves_atoms_witness:
  "\<exists>cell theta sheet. create_tilted_cell 10 15 (318 / 100) = Inr (cell, theta)
     \<and> replicated_sheet 10 (318 / 100) = Inr sheet
     \<and> length (frac_coords cell) = 60
     \<and> species cell = species sheet"
proof -
  have "\<exists>cell theta. create_tilted_cell 10 15 (318 / 100) = Inr (cell, theta)"
    by (rule create_tilted_cell_ok) simp_all
  then obtain cell theta where c: "create_tilted_cell 10 15 (318 / 100) = Inr (cell, theta)"
    by blast
  have "(1::nat) \<le> 10" "(0::real) < 318 / 100" "(0::real) < 15" by simp_all
  from create_tilted_cell_preserves_atoms[OF this c] c show ?thesis by auto
qed

text \<open>
  C9. On every valid input \<open>create_tilted_cell\<close> returns a cell whose box has the three
  angles \<open>90\<close> and the axis lengths \<open>(planarLength, b, perpendicularLength)\<close>: \<open>b\<close> is the
  second axis of the replicated sheet, \<open>a \<surd>3\<close>, and the two other lengths and the
  returned angle are what the solver gives for the sheet length \<open>N a\<close>.
\<close>

theorem create_tilted_cell_box:
  assumes "1 \<le> N" "0 < a" "0 < h" "2 * h \<le> real N * a"
  shows "\<exists>cell theta sheet Lp Lz. create_tilted_cell N h a = Inr (cell, theta)
     \<and> replicated_sheet N a = Inr sheet
     \<and> lat_a (lattice sheet) = real N * a
     \<and> lat_b (lattice sheet) = a * sqrt 3
     \<and> solve_box_geometry (lat_a (lattice sheet)) h = Inr (Lp, Lz, theta)
     \<and> lat_a (lattice cell) = Lp
     \<and> lat_b (lattice cell) = lat_b (lattice sheet)
     \<and> lat_c (lattice cell) = Lz
     \<and> lat_alpha (lattice cell) = 90
     \<and> lat_beta (lattice cell) = 90
     \<and> lat_gamma (lattice cell) = 90"
proof -
  have N: "0 < N" using assms(1) by simp
  obtain cell theta where c: "create_tilted_cell N h a = Inr (cell, theta)"
    using create_tilted_cell_ok[OF N assms(2,3,4)] by blast
  obtain sheet Lp Lz where sh: "replicated_sheet N a = Inr sheet"
    and so: "solve_box_geometry (lat_a (lattice sheet)) h = Inr (Lp, Lz, theta)"
    and ce: "cell = \<lparr>lattice = from_parameters Lp (lat_b (lattice sheet)) Lz 90 90 90,
                 species = species sheet,
                 frac_coords = map (get_fractional_coords
                       (from_parameters Lp (lat_b (lattice sheet)) Lz 90 90 90))
                     (rotate_coords theta (centered_coords sheet))\<rparr>"
    using create_tilted_cell_Inr[OF c] by blast
  note f = replicated_sheet_Inr[OF sh]
  have l: "lat_a (lattice sheet) = real N * a" "lat_b (lattice sheet) = a * sqrt 3"
    by (simp_all add: f(2) from_parameters_def)
  have "lat_a (lattice cell) = Lp" "lat_b (lattice cell) = lat_b (lattice sheet)"
    "lat_c (lattice cell) = Lz" "lat_alpha (lattice cell) = 90"
    "lat_beta (lattice cell) = 90" "lat_gamma (lattice cell) = 90"
    by (simp_all add: ce from_parameters_def)
  then show ?thesis using c sh so l by blast
qed

text \<open>C9 on the parameters of the script.\<close>

theorem create_tilted_cell_box_witness:
  "\<exists>cell theta sheet Lp Lz. create_tilted_cell 10 15 (318 / 100) = Inr (cell, theta)
     \<and> replicated_sheet 10 (318 / 100) = Inr sheet
     \<and> lat_a (lattice sheet) = real 10 * (318 / 100)
     \<and> lat_b (lattice sheet) = 318 / 100 * sqrt 3
     \<and> solve_box_geometry (lat_a (lattice sheet)) 15 = Inr (Lp, Lz, theta)
     \<and> lat_a (lattice cell) = Lp
     \<and> lat_b (lattice cell) = lat_b (lattice sheet)
     \<and> lat_c (lattice cell) = Lz
     \<and> lat_alpha (lattice cell) = 90
     \<and> lat_beta (lattice cell) = 90
     \<and> lat_gamma (lattice cell) = 90"
proof -
  have h: "(1::nat) \<le> 10" "(0::real) < 318 / 100" "(0::real) < 15"
    "2 * 15 \<le> real 10 * (318 / 100)" by simp_all
  show ?thesis by (rule create_tilted_cell_box[OF h])
qed

subsection \<open>Wrapping into the new box\<close>

lemma frac_consts: "frac (1 / 2 :: real) = 1 / 2" "frac (211 / 500 :: real) = 211 / 500"
  "frac (289 / 500 :: real) = 289 / 500"
  by (simp_all add: frac_eq)

lemma replicated_sheet_frac_coords:
  assumes "replicated_sheet N a = Inr sheet"
  shows "frac_coords sheet = concat (map (\<lambda>(fx, fy, fz).
                    map (\<lambda>k. wrap ((fx + real k) / real N, fy, fz)) [0..<N])
                  [(0, 0, 1 / 2), (1 / 2, 1 / 2, 1 / 2), (0, 0, 211 / 500),
                    (0, 0, 289 / 500), (1 / 2, 1 / 2, 211 / 500),
                    (1 / 2, 1 / 2, 289 / 500)])"
proof -
  have N: "0 < N" by (rule replicated_sheet_Inr(1)[OF assms])
  show ?thesis
    using assms N
    by (auto simp: replicated_sheet_def get_rectangular_mos2_Inr make_supercell_def)
qed

lemma replicated_sheet_z:
  assumes "replicated_sheet N a = Inr sheet"
  shows "map (\<lambda>(x, y, z). z) (cart_coords sheet) =
     replicate N 10 @ replicate N 10 @ replicate N (211 / 25) @ replicate N (289 / 25)
       @ replicate N (211 / 25) @ replicate N (289 / 25)"
proof -
  have c: "lat_c (lattice sheet) = 20"
    by (simp add: replicated_sheet_Inr(2)[OF assms] from_parameters_def)
  show ?thesis
    by (simp add: cart_coords_def replicated_sheet_frac_coords[OF assms] c wrap_def
        get_cartesian_coords_def frac_consts o_def map_replicate_const)
qed

lemma replicated_sheet_z_mean:
  assumes "replicated_sheet N a = Inr sheet"
  shows "np_mean (map (\<lambda>(x, y, z). z) (cart_coords sheet)) = 10"
proof -
  have N: "0 < N" by (rule replicated_sheet_Inr(1)[OF assms])
  have "sum_list (replicate N 10 @ replicate N 10 @ replicate N (211 / 25) @ replicate N (289 / 25)
       @ replicate N (211 / 25) @ replicate N (289 / 25) :: real list) = 60 * real N"
    by (simp add: sum_list_replicate)
  then show ?thesis
    using N by (simp add: np_mean_def replicated_sheet_z[OF assms])
qed

lemma in_concat_map:
  "x \<in> set xs \<Longrightarrow> y \<in> set (f x) \<Longrightarrow> y \<in> set (concat (map f xs))"
  by auto

lemma bottom_atom_in_sheet:
  assumes "replicated_sheet N a = Inr sheet"
  shows "(0, 0, 211 / 500) \<in> set (frac_coords sheet)"
proof -
  have N: "0 < N" by (rule replicated_sheet_Inr(1)[OF assms])
  let ?F = "\<lambda>(fx, fy, fz). map (\<lambda>k. wrap ((fx + real k) / real N, fy, fz)) [0..<N]"
  let ?cell = "[(0, 0, 1 / 2), (1 / 2, 1 / 2, 1 / 2), (0, 0, 211 / 500),
                    (0, 0, 289 / 500), (1 / 2, 1 / 2, 211 / 500),
                    (1 / 2, 1 / 2, 289 / 500)] :: vec3 list"
  have w: "wrap ((0 + real 0) / real N, 0, 211 / 500) = (0, 0, 211 / 500)"
    by (simp add: wrap_def frac_consts)
  have "0 \<in> set [0..<N]" using N by simp
  then have "wrap ((0 + real 0) / real N, 0, 211 / 500)
      \<in> (\<lambda>k. wrap ((0 + real k) / real N, 0, 211 / 500)) ` set [0..<N]"
    by (rule imageI)
  then have 1: "(0, 0, 211 / 500) \<in> set (?F (0, 0, 211 / 500))"
    unfolding w by simp
  have 2: "(0, 0, 211 / 500) \<in> set ?cell" by simp
  have "(0, 0, 211 / 500) \<in> set (concat (map ?F ?cell))"
    using 2 1 by (rule in_concat_map)
  then show ?thesis
    by (simp only: replicated_sheet_frac_coords[OF assms])
qed

lemma bottom_atom_centered:
  assumes "replicated_sheet N a = Inr sheet"
  shows "(0, 0, - (39 / 25)) \<in> set (centered_coords sheet)"
proof -
  have c: "lat_c (lattice sheet) = 20"
    by (simp add: replicated_sheet_Inr(2)[OF assms] from_parameters_def)
  let ?f = "\<lambda>p. (\<lambda>(x, y, z). (x, y, z - 10)) (get_cartesian_coords (lattice sheet) p)"
  have "centered_coords sheet = map (\<lambda>(x, y, z). (x, y, z - 10)) (cart_coords sheet)"
    by (simp only: centered_coords_def Let_def replicated_sheet_z_mean[OF assms])
  then have "centered_coords sheet = map ?f (frac_coords sheet)"
    by (simp add: cart_coords_def o_def)
  moreover have "?f (0, 0, 211 / 500) = (0, 0, - (39 / 25))"
    by (simp add: get_cartesian_coords_def c)
  ultimately show ?thesis
    using imageI[OF bottom_atom_in_sheet[OF assms], of ?f] by simp
qed

lemma bottom_atom_below_box:
  assumes "0 < h" "create_tilted_cell N h a = Inr (cell, theta)"
  shows "\<exists>fx fy fz. (fx, fy, fz) \<in> set (frac_coords cell) \<and> fz < 0"
proof -
  obtain sheet Lp Lz where sh: "replicated_sheet N a = Inr sheet"
    and so: "solve_box_geometry (lat_a (lattice sheet)) h = Inr (Lp, Lz, theta)"
    and ce: "cell = \<lparr>lattice = from_parameters Lp (lat_b (lattice sheet)) Lz 90 90 90,
                 species = species sheet,
                 frac_coords = map (get_fractional_coords
                       (from_parameters Lp (lat_b (lattice sheet)) Lz 90 90 90))
                     (rotate_coords theta (centered_coords sheet))\<rparr>"
    using create_tilted_cell_Inr[OF assms(2)] by blast
  have la: "lat_a (lattice sheet) = real N * a"
    by (simp add: replicated_sheet_Inr(2)[OF sh] from_parameters_def)
  have "\<not> real N * a < 2 * h"
    using so unfolding la by (auto simp: solve_box_geometry_def)
  then have v: "2 * h \<le> real N * a" by simp
  let ?u = "spec_planar_sq (real N * a) h"
  have u: "0 < ?u" by (rule spec_planar_sq_pos[OF assms(1) v])
  have r: "Lz = (real N * a * h) / sqrt ?u" "theta = arctan ((real N * a * h) / ?u)"
    using so solve_box_geometry_valid[OF assms(1) v] unfolding la by auto
  have "0 < real N * a" using assms(1) v by linarith
  then have Lz: "0 < Lz" using u assms(1) unfolding r(1) by simp
  have "0 < theta" "theta \<le> pi / 4"
    unfolding r(2) by (rule arctan_ratio[OF assms(1) v])+
  then have "- (pi / 2) < theta" "theta < pi / 2" using pi_gt_zero by linarith+
  then have cs: "0 < cos theta" by (rule cos_gt_zero_pi)
  let ?lat = "from_parameters Lp (lat_b (lattice sheet)) Lz 90 90 90"
  let ?r = "\<lambda>(x, y, z). (cos theta * x - sin theta * z, y, sin theta * x + cos theta * z)"
  have fc: "frac_coords cell =
      map (get_fractional_coords ?lat) (rotate_coords theta (centered_coords sheet))"
    by (simp add: ce)
  have rc: "rotate_coords theta (centered_coords sheet) = map ?r (centered_coords sheet)"
    by (rule rotate_coords_map)
  have "?r (0, 0, - (39 / 25)) \<in> set (rotate_coords theta (centered_coords sheet))"
    unfolding rc using imageI[OF bottom_atom_centered[OF sh], of ?r] by simp
  then have "get_fractional_coords ?lat (?r (0, 0, - (39 / 25))) \<in> set (frac_coords cell)"
    unfolding fc using imageI[of _ _ "get_fractional_coords ?lat"] by simp
  moreover have "get_fractional_coords ?lat (?r (0, 0, - (39 / 25))) =
      (sin theta * (39 / 25) / Lp, 0, - (cos theta * (39 / 25)) / Lz)"
    by (simp add: get_fractional_coords_def from_parameters_def)
  moreover have "- (cos theta * (39 / 25)) / Lz < 0"
    using cs Lz by (simp add: divide_neg_pos)
  ultimately show ?thesis by metis
qed

text \<open>
  Reduction modulo 1 does put every component into \<open>[0, 1)\<close>, and a structure built
  with \<open>to_unit_cell\<close> set holds only such coordinates. The call of line 117 does not
  set it.
\<close>

lemma wrap_in_unit_cell: "in_unit_cell (wrap p)"
  by (cases p) (simp add: wrap_def in_unit_cell_def frac_lt_1)

lemma new_Structure_to_unit_cell:
  assumes "new_Structure lat sp coords True cart = Inr st" "p \<in> set (frac_coords st)"
  shows "in_unit_cell p"
  using assms by (auto simp: new_Structure_def Let_def wrap_in_unit_cell split: if_splits)

text \<open>
  C5. The claim is that every fractional coordinate of the cell returned by
  \<open>create_tilted_cell\<close> lies in \<open>[0, 1)\<close>, the rotated positions being reduced modulo 1
  on each axis, as the comment of lines 119-120 also says. The code builds the
  structure without \<open>to_unit_cell\<close> and copies it, so no reduction takes place: on the
  parameters of the script (\<open>N = 10\<close>, spacing \<open>15\<close>, \<open>a = 3.18\<close>) the returned cell has
  an atom with a fractional coordinate outside \<open>[0, 1)\<close>. It is the sulfur atom at
  \<open>(0, 0, -1.56)\<close> after centring, whose rotated height \<open>-1.56 cos \<theta>\<close> is negative.
\<close>

theorem create_tilted_cell_not_wrapped:
  "\<exists>cell theta p. create_tilted_cell 10 15 (318 / 100) = Inr (cell, theta)
     \<and> p \<in> set (frac_coords cell) \<and> \<not> in_unit_cell p"
proof -
  have "\<exists>cell theta. create_tilted_cell 10 15 (318 / 100) = Inr (cell, theta)"
    by (rule create_tilted_cell_ok) simp_all
  then obtain cell theta where c: "create_tilted_cell 10 15 (318 / 100) = Inr (cell, theta)"
    by blast
  have "(0::real) < 15" by simp
  from bottom_atom_below_box[OF this c]
  obtain fx fy fz where p: "(fx, fy, fz) \<in> set (frac_coords cell)" "fz < 0"
    by blast
  have "\<not> in_unit_cell (fx, fy, fz)"
    using p(2) by (simp add: in_unit_cell_def)
  then show ?thesis using c p(1) by blast
qed

end
